theory Spec2Isabelle
  imports Complex_Main "HOL-Library.Multiset" "HOL-Library.List_Lexorder" "HOL-Library.Char_ord"
begin

section \<open>The table\<close>

text \<open>
  \<^verbatim>\<open>scripts/generate_sample_plots.py\<close> reads a CSV file into a pandas DataFrame
  (\<^verbatim>\<open>df = pd.read_csv(csv_path)\<close>, line 21) and derives every chart from it.
  A cell of the table is a finite number (an int64 or a float64, held as the real number
  it denotes), an infinity of float64, a string, or missing (pandas' NaN). Reading,
  comparing and sorting cells involves no arithmetic; the arithmetic of the aggregation
  (line 102) is float64 arithmetic and is a parameter of the model, see \<open>numerics\<close>.
\<close>

datatype cell = Num real | PosInf | NegInf | Str string | NaN

text \<open>The exceptions the script can raise.\<close>

datatype error = KeyError string | TypeError | EmptyDataError | ParserError

text \<open>
  A DataFrame: the column labels of the header row, and the data rows in file order.
\<close>

record frame =
  columns :: "string list"
  rows :: "cell list list"

text \<open>
  The order in which pandas sorts group keys: numbers by value between the two
  infinities, strings lexicographically and after the numbers, the missing value last.
\<close>

fun rank :: "cell \<Rightarrow> nat" where
  "rank NegInf = 0"
| "rank (Num x) = 1"
| "rank PosInf = 2"
| "rank (Str s) = 3"
| "rank NaN = 4"

instantiation cell :: linorder
begin

fun less_eq_cell :: "cell \<Rightarrow> cell \<Rightarrow> bool" where
  "less_eq_cell (Num x) (Num y) = (x \<le> y)"
| "less_eq_cell (Str a) (Str b) = (a \<le> b)"
| "less_eq_cell a b = (rank a \<le> rank b)"

definition less_cell :: "cell \<Rightarrow> cell \<Rightarrow> bool" where
  "less_cell a b = (a \<le> b \<and> \<not> b \<le> a)"

instance
proof
  fix x y z :: cell
  show "(x < y) = (x \<le> y \<and> \<not> y \<le> x)"
    by (simp add: less_cell_def)
  show "x \<le> x"
    by (cases x) simp_all
  show "x \<le> y \<Longrightarrow> y \<le> z \<Longrightarrow> x \<le> z"
    by (cases x; cases y; cases z) simp_all
  show "x \<le> y \<Longrightarrow> y \<le> x \<Longrightarrow> x = y"
    by (cases x; cases y) simp_all
  show "x \<le> y \<or> y \<le> x"
    by (cases x; cases y) auto
qed

end

subsection \<open>Column access\<close>

text \<open>
  \<^verbatim>\<open>df[label]\<close> returns the column under that label and raises
  \<^verbatim>\<open>KeyError(label)\<close> when the header has no such label. A row that is shorter
  than the header reads as missing there, as \<^verbatim>\<open>read_csv\<close> fills it.
\<close>

fun index_of :: "string \<Rightarrow> string list \<Rightarrow> nat option" where
  "index_of c [] = None"
| "index_of c (x # xs) = (if x = c then Some 0 else map_option Suc (index_of c xs))"

definition cell_at :: "nat \<Rightarrow> cell list \<Rightarrow> cell" where
  "cell_at j r = (if j < length r then r ! j else NaN)"

definition getitem :: "frame \<Rightarrow> string \<Rightarrow> error + cell list" where
  "getitem df c =
     (case index_of c (columns df) of
        None \<Rightarrow> Inl (KeyError c)
      | Some j \<Rightarrow> Inr (map (cell_at j) (rows df)))"

subsection \<open>Elementwise comparison and row selection\<close>

text \<open>
  \<^verbatim>\<open>column == v\<close> compares cell by cell; a missing value equals nothing, itself
  included.
\<close>

definition cell_eq :: "cell \<Rightarrow> cell \<Rightarrow> bool" where
  "cell_eq a b = (a \<noteq> NaN \<and> b \<noteq> NaN \<and> a = b)"

text \<open>
  \<^verbatim>\<open>column > 0\<close>: a missing value is not greater than 0; a string cannot be
  compared with a number (\<^verbatim>\<open>TypeError\<close>).
\<close>

fun is_Str :: "cell \<Rightarrow> bool" where
  "is_Str (Str s) = True"
| "is_Str c = False"

fun positive :: "cell \<Rightarrow> bool" where
  "positive (Num x) = (0 < x)"
| "positive PosInf = True"
| "positive c = False"

definition gt_zero :: "cell list \<Rightarrow> error + bool list" where
  "gt_zero col = (if list_ex is_Str col then Inl TypeError else Inr (map positive col))"

text \<open>
  \<^verbatim>\<open>df[mask]\<close> with a boolean mask keeps the rows whose mask entry is true, in
  their order, under the same header.
\<close>

definition select :: "frame \<Rightarrow> bool list \<Rightarrow> frame" where
  "select df keep = df\<lparr>rows := map fst (filter snd (zip (rows df) keep))\<rparr>"

text \<open>
  \<^verbatim>\<open>column.unique()\<close>: the distinct values of a column in order of first
  appearance (all missing values count as one).
\<close>

primrec unique_from :: "cell list \<Rightarrow> cell list \<Rightarrow> cell list" where
  "unique_from seen [] = []"
| "unique_from seen (x # xs) =
     (if x \<in> set seen then unique_from seen xs else x # unique_from (x # seen) xs)"

definition unique :: "cell list \<Rightarrow> cell list" where
  "unique xs = unique_from [] xs"

section \<open>The derivations of the script\<close>

text \<open>
  Line 41: \<^verbatim>\<open>subjects = df['Subject_ID'].unique()\<close>.
\<close>

definition subjects :: "frame \<Rightarrow> error + cell list" where
  "subjects df =
     (case getitem df ''Subject_ID'' of
        Inl e \<Rightarrow> Inl e
      | Inr ids \<Rightarrow> Inr (unique ids))"

text \<open>
  Lines 44, 65, 84 and 148: \<^verbatim>\<open>subject_data = df[df['Subject_ID'] == subject]\<close>.
  The rows are not sorted and not checked for duplicates.
\<close>

definition subject_data :: "frame \<Rightarrow> cell \<Rightarrow> error + frame" where
  "subject_data df subject =
     (case getitem df ''Subject_ID'' of
        Inl e \<Rightarrow> Inl e
      | Inr ids \<Rightarrow> Inr (select df (map (\<lambda>c. cell_eq c subject) ids)))"

text \<open>
  Line 86:
  \<^verbatim>\<open>data_nonzero = subject_data[subject_data['Concentration_mg_L'] > 0]\<close>.
\<close>

definition data_nonzero :: "frame \<Rightarrow> error + frame" where
  "data_nonzero sd =
     (case getitem sd ''Concentration_mg_L'' of
        Inl e \<Rightarrow> Inl e
      | Inr cs \<Rightarrow>
          (case gt_zero cs of
             Inl e \<Rightarrow> Inl e
           | Inr keep \<Rightarrow> Inr (select sd keep)))"

text \<open>
  Line 102:
  \<^verbatim>\<open>mean_data = df.groupby('Time_h')['Concentration_mg_L'].agg(['mean', 'std']).reset_index()\<close>.

  pandas computes the mean and the standard deviation of a group in float64: the values
  are converted to float64, summed with rounding (and a compensation term), and a sum
  can overflow to an infinity. This arithmetic is pandas' compiled code, not part of the
  script, and is taken as a parameter of the model. For the numbers \<open>xs\<close> of a group
  (missing values left out, in row order), \<open>float_sum K xs\<close> is the float64 sum pandas
  accumulates, \<open>float_div K s n\<close> the float64 quotient of \<open>s\<close> by the count \<open>n\<close>,
  and \<open>float_std K ddof xs\<close> the float64 standard deviation with \<open>ddof\<close> delta
  degrees of freedom, for \<open>ddof < length xs\<close>.
\<close>

record numerics =
  float_sum :: "cell list \<Rightarrow> cell"
  float_div :: "cell \<Rightarrow> nat \<Rightarrow> cell"
  float_std :: "nat \<Rightarrow> cell list \<Rightarrow> cell"

text \<open>
  \<^verbatim>\<open>groupby\<close> drops the rows whose key is missing and sorts the groups by key;
  \<^verbatim>\<open>mean\<close> and \<^verbatim>\<open>std\<close> skip missing values. The mean is the sum over the
  count and is missing for a group without a number. \<^verbatim>\<open>std\<close> is called without
  arguments, so \<open>ddof = 1\<close>, and is missing when \<open>n \<le> ddof\<close>. Averaging strings
  raises \<^verbatim>\<open>TypeError\<close>. A missing key column raises \<^verbatim>\<open>KeyError('Time_h')\<close>; a
  missing value column raises
  \<^verbatim>\<open>KeyError('Column not found: Concentration_mg_L')\<close>.
\<close>

definition group_keys :: "cell list \<Rightarrow> cell list" where
  "group_keys ks = sort (unique (filter (\<lambda>k. k \<noteq> NaN) ks))"

definition group_values :: "cell list \<Rightarrow> cell list \<Rightarrow> cell \<Rightarrow> cell list" where
  "group_values ks vs k = map snd (filter (\<lambda>kv. fst kv = k) (zip ks vs))"

fun is_number :: "cell \<Rightarrow> bool" where
  "is_number (Num x) = True"
| "is_number PosInf = True"
| "is_number NegInf = True"
| "is_number c = False"

definition agg_mean :: "numerics \<Rightarrow> cell list \<Rightarrow> cell" where
  "agg_mean K vs =
     (let xs = filter is_number vs; n = length xs
      in if n = 0 then NaN else float_div K (float_sum K xs) n)"

definition agg_std :: "numerics \<Rightarrow> cell list \<Rightarrow> cell" where
  "agg_std K vs =
     (let xs = filter is_number vs; n = length xs; ddof = 1
      in if n \<le> ddof then NaN else float_std K ddof xs)"

definition mean_data :: "numerics \<Rightarrow> frame \<Rightarrow> error + frame" where
  "mean_data K df =
     (case getitem df ''Time_h'' of
        Inl e \<Rightarrow> Inl e
      | Inr ks \<Rightarrow>
          (case getitem df ''Concentration_mg_L'' of
             Inl e \<Rightarrow> Inl (KeyError (''Column not found: '' @ ''Concentration_mg_L''))
           | Inr vs \<Rightarrow>
               if list_ex is_Str vs then Inl TypeError
               else Inr \<lparr>columns = [''Time_h'', ''mean'', ''std''],
                         rows = map (\<lambda>k. [k, agg_mean K (group_values ks vs k),
                                          agg_std K (group_values ks vs k)])
                                    (group_keys ks)\<rparr>))"

text \<open>
  Line 125: \<^verbatim>\<open>mean_nonzero = mean_data[mean_data['mean'] > 0]\<close>.
\<close>

definition mean_nonzero :: "frame \<Rightarrow> error + frame" where
  "mean_nonzero md =
     (case getitem md ''mean'' of
        Inl e \<Rightarrow> Inl e
      | Inr ms \<Rightarrow>
          (case gt_zero ms of
             Inl e \<Rightarrow> Inl e
           | Inr keep \<Rightarrow> Inr (select md keep)))"

section \<open>The script as a program with state\<close>

text \<open>
  The script is a sequence of statements over DataFrame objects. The state holds these
  objects by address, in allocation order, and the calls made to matplotlib that draw
  data or write a figure, in order. Styling calls (labels, limits, legends, colours),
  \<^verbatim>\<open>print\<close> and the creation of the output directory are left out.
\<close>

type_synonym addr = nat

text \<open>
  \<^verbatim>\<open>ax.plot(x, y)\<close>, \<^verbatim>\<open>ax.semilogy(x, y)\<close>,
  \<^verbatim>\<open>ax.errorbar(x, y, yerr=e)\<close> and \<^verbatim>\<open>plt.savefig(file)\<close>.
\<close>

datatype plot_call =
    Plot "cell list" "cell list"
  | Semilogy "cell list" "cell list"
  | Errorbar "cell list" "cell list" "cell list"
  | Savefig string

record state =
  heap :: "frame list"
  calls :: "plot_call list"

text \<open>
  A statement runs on a state and returns a value or raises an exception, with the new
  state; \<open>bind\<close> runs one statement after another and stops at the first exception.
\<close>

type_synonym 'a action = "state \<Rightarrow> (error + 'a) \<times> state"

definition return :: "'a \<Rightarrow> 'a action" where
  "return x st = (Inr x, st)"

definition bind :: "'a action \<Rightarrow> ('a \<Rightarrow> 'b action) \<Rightarrow> 'b action" where
  "bind m f st = (case m st of (Inl e, st') \<Rightarrow> (Inl e, st') | (Inr x, st') \<Rightarrow> f x st')"

definition raising :: "error + 'a \<Rightarrow> 'a action" where
  "raising r st = (r, st)"

text \<open>
  The value of a pandas expression that builds a DataFrame is stored at the next free
  address by \<open>new_frame\<close>; the heap so records the tables in the order in which the
  script builds them. The script has no statement that assigns into a DataFrame. Whether
  pandas lets a table share memory with the one it was selected from is not modelled.
  \<open>frame_at\<close> reads the object a variable refers to; a variable of the script always
  refers to an object that exists, so the address is within the heap wherever the script
  uses it. \<open>emit\<close> records a call to matplotlib.
\<close>

definition new_frame :: "frame \<Rightarrow> addr action" where
  "new_frame fr st = (Inr (length (heap st)), st\<lparr>heap := heap st @ [fr]\<rparr>)"

definition frame_at :: "addr \<Rightarrow> frame action" where
  "frame_at a st = (Inr (heap st ! a), st)"

definition emit :: "plot_call \<Rightarrow> unit action" where
  "emit c st = (Inr (), st\<lparr>calls := calls st @ [c]\<rparr>)"

text \<open>
  \<^verbatim>\<open>v[label]\<close> for a variable \<open>v\<close>, and \<^verbatim>\<open>w = f(v)\<close> for a derivation
  \<open>f\<close> of the previous section.
\<close>

definition getitem_at :: "addr \<Rightarrow> string \<Rightarrow> cell list action" where
  "getitem_at a c = bind (frame_at a) (\<lambda>fr. raising (getitem fr c))"

definition derive :: "(frame \<Rightarrow> error + frame) \<Rightarrow> addr \<Rightarrow> addr action" where
  "derive f a = bind (frame_at a) (\<lambda>fr. bind (raising (f fr)) new_frame)"

text \<open>A \<^verbatim>\<open>for\<close> loop over a list.\<close>

primrec for_each :: "'a list \<Rightarrow> ('a \<Rightarrow> unit action) \<Rightarrow> unit action" where
  "for_each [] body = return ()"
| "for_each (x # xs) body = bind (body x) (\<lambda>_. for_each xs body)"

text \<open>
  The body of the loops at lines 43--47, 64--67 and 147--150: select the subject's rows,
  then plot their times against their concentrations.
\<close>

definition plot_subject :: "addr \<Rightarrow> cell \<Rightarrow> unit action" where
  "plot_subject df subject =
     bind (derive (\<lambda>fr. subject_data fr subject) df) (\<lambda>sd.
     bind (getitem_at sd ''Time_h'') (\<lambda>x.
     bind (getitem_at sd ''Concentration_mg_L'') (\<lambda>y.
     emit (Plot x y))))"

text \<open>
  The body of the loop at lines 83--88: select the subject's rows, keep those with a
  concentration above 0, and plot them on the logarithmic axis.
\<close>

definition semilogy_subject :: "addr \<Rightarrow> cell \<Rightarrow> unit action" where
  "semilogy_subject df subject =
     bind (derive (\<lambda>fr. subject_data fr subject) df) (\<lambda>sd.
     bind (derive data_nonzero sd) (\<lambda>nz.
     bind (getitem_at nz ''Time_h'') (\<lambda>x.
     bind (getitem_at nz ''Concentration_mg_L'') (\<lambda>y.
     emit (Semilogy x y)))))"

text \<open>
  Lines 105, 126 and 153: error bars from the columns of the aggregate table.
\<close>

definition errorbar :: "addr \<Rightarrow> unit action" where
  "errorbar md =
     bind (getitem_at md ''Time_h'') (\<lambda>x.
     bind (getitem_at md ''mean'') (\<lambda>m.
     bind (getitem_at md ''std'') (\<lambda>s.
     emit (Errorbar x m s))))"

text \<open>
  Line 21: \<^verbatim>\<open>df = pd.read_csv(csv_path)\<close>. The file is given by the fields of its
  header line (\<open>columns\<close>) and of its data lines (\<open>rows\<close>). pandas skips blank lines.
  A file without a header line raises \<^verbatim>\<open>EmptyDataError\<close>. The first data line may
  have more fields than the header: then the surplus leading fields of every line are the
  row index, not columns. A later line with more fields than that raises
  \<^verbatim>\<open>ParserError\<close>; a line with fewer fields is filled with missing values, which is
  how \<open>cell_at\<close> reads a short row. The header fields that pandas renames (an empty one,
  the second occurrence of a repeated one) are none the script reads, so the header is
  kept as it is. \<^verbatim>\<open>read_csv\<close> does not look for particular labels.
\<close>

definition data_lines :: "frame \<Rightarrow> cell list list" where
  "data_lines csv = filter (\<lambda>r. r \<noteq> []) (rows csv)"

definition line_width :: "frame \<Rightarrow> nat" where
  "line_width csv =
     (case data_lines csv of
        [] \<Rightarrow> length (columns csv)
      | r # rest \<Rightarrow> max (length (columns csv)) (length r))"

definition read_csv :: "frame \<Rightarrow> addr action" where
  "read_csv csv =
     (if columns csv = [] then raising (Inl EmptyDataError)
      else if list_ex (\<lambda>r. line_width csv < length r) (data_lines csv)
      then raising (Inl ParserError)
      else new_frame (csv\<lparr>rows := map (drop (line_width csv - length (columns csv)))
                                     (data_lines csv)\<rparr>))"

text \<open>
  Lines 37--173 draw the six charts; line 37 reads the subject column for the colour
  palette and line 41 reads it again for the list of subjects.
\<close>

definition charts :: "numerics \<Rightarrow> addr \<Rightarrow> unit action" where
  "charts K df =
     bind (getitem_at df ''Subject_ID'') (\<lambda>ids_for_colors.
     bind (getitem_at df ''Subject_ID'') (\<lambda>ids.
     bind (for_each (unique ids) (plot_subject df)) (\<lambda>_.
     bind (emit (Savefig ''individual_concentration_time.png'')) (\<lambda>_.
     bind (for_each (unique ids) (plot_subject df)) (\<lambda>_.
     bind (emit (Savefig ''spaghetti_linear.png'')) (\<lambda>_.
     bind (for_each (unique ids) (semilogy_subject df)) (\<lambda>_.
     bind (emit (Savefig ''spaghetti_semilog.png'')) (\<lambda>_.
     bind (derive (mean_data K) df) (\<lambda>md.
     bind (errorbar md) (\<lambda>_.
     bind (emit (Savefig ''mean_concentration_time.png'')) (\<lambda>_.
     bind (derive mean_nonzero md) (\<lambda>mnz.
     bind (errorbar mnz) (\<lambda>_.
     bind (emit (Savefig ''mean_concentration_time_semilog.png'')) (\<lambda>_.
     bind (for_each (unique ids) (plot_subject df)) (\<lambda>_.
     bind (errorbar md) (\<lambda>_.
     emit (Savefig ''combined_concentration_time.png'')))))))))))))))))"

definition script :: "numerics \<Rightarrow> frame \<Rightarrow> unit action" where
  "script K csv = bind (read_csv csv) (charts K)"

text \<open>The state before the script runs.\<close>

definition start :: state where
  "start = \<lparr>heap = [], calls = []\<rparr>"

section \<open>Observations and series\<close>

text \<open>
  The value of row \<open>r\<close> of \<open>df\<close> under a label, and the three fields of an
  observation: its subject, its time in hours and its concentration in mg/L.
\<close>

definition field :: "frame \<Rightarrow> string \<Rightarrow> cell list \<Rightarrow> cell" where
  "field df c r = (case index_of c (columns df) of None \<Rightarrow> NaN | Some j \<Rightarrow> cell_at j r)"

fun num_of :: "cell \<Rightarrow> real" where
  "num_of (Num x) = x"
| "num_of c = 0"

definition subject_id :: "frame \<Rightarrow> cell list \<Rightarrow> cell" where
  "subject_id df r = field df ''Subject_ID'' r"

definition time_h :: "frame \<Rightarrow> cell list \<Rightarrow> real" where
  "time_h df r = num_of (field df ''Time_h'' r)"

definition concentration :: "frame \<Rightarrow> cell list \<Rightarrow> real" where
  "concentration df r = num_of (field df ''Concentration_mg_L'' r)"

fun nonneg :: "cell \<Rightarrow> bool" where
  "nonneg (Num x) = (0 \<le> x)"
| "nonneg c = False"

definition has_column :: "frame \<Rightarrow> string \<Rightarrow> bool" where
  "has_column df c = (index_of c (columns df) \<noteq> None)"

definition valid_row :: "frame \<Rightarrow> cell list \<Rightarrow> bool" where
  "valid_row df r =
     (subject_id df r \<noteq> NaN \<and> nonneg (field df ''Time_h'' r)
      \<and> nonneg (field df ''Concentration_mg_L'' r))"

text \<open>
  A valid dataset: the header has the three columns, each once; every row names its
  subject and gives a time and a concentration that are numbers, not negative.
\<close>

definition valid_dataset :: "frame \<Rightarrow> bool" where
  "valid_dataset df =
     (distinct (columns df) \<and> has_column df ''Subject_ID'' \<and> has_column df ''Time_h''
      \<and> has_column df ''Concentration_mg_L'' \<and> list_all (valid_row df) (rows df))"

text \<open>No two observations of a dataset share subject and time.\<close>

definition unique_observations :: "frame \<Rightarrow> bool" where
  "unique_observations df = distinct (map (\<lambda>r. (subject_id df r, time_h df r)) (rows df))"

text \<open>
  The times of the rows of a table, and the concentrations recorded at one time, both in
  row order.
\<close>

definition time_points :: "frame \<Rightarrow> real list" where
  "time_points df = map (time_h df) (rows df)"

definition concentrations_at :: "frame \<Rightarrow> real \<Rightarrow> real list" where
  "concentrations_at df t = map (concentration df) (filter (\<lambda>r. time_h df r = t) (rows df))"

text \<open>
  The aggregate series: the rows of \<^verbatim>\<open>mean_data\<close> read as points (time, mean, std),
  as the script hands them to \<^verbatim>\<open>ax.errorbar\<close> (lines 105, 153).
\<close>

definition points :: "frame \<Rightarrow> (real \<times> cell \<times> cell) list" where
  "points md = map (\<lambda>p. (time_h md p, field md ''mean'' p, field md ''std'' p)) (rows md)"

definition aggregate_series :: "numerics \<Rightarrow> frame \<Rightarrow> error + (real \<times> cell \<times> cell) list" where
  "aggregate_series K df = map_sum id points (mean_data K df)"

text \<open>
  The per-subject series. The loops at lines 43, 64, 83 and 147 run over
  \<^verbatim>\<open>subjects\<close> and bind \<^verbatim>\<open>subject_data\<close> anew in each iteration;
  \<open>subject_series\<close> collects these values with their subjects, and stops at the first
  exception as the loop does.
\<close>

primrec for_subjects :: "frame \<Rightarrow> cell list \<Rightarrow> error + (cell \<times> frame) list" where
  "for_subjects df [] = Inr []"
| "for_subjects df (subject # rest) =
     (case subject_data df subject of
        Inl e \<Rightarrow> Inl e
      | Inr sd \<Rightarrow>
          (case for_subjects df rest of
             Inl e \<Rightarrow> Inl e
           | Inr series \<Rightarrow> Inr ((subject, sd) # series)))"

definition subject_series :: "frame \<Rightarrow> error + (cell \<times> frame) list" where
  "subject_series df =
     (case subjects df of
        Inl e \<Rightarrow> Inl e
      | Inr ss \<Rightarrow> for_subjects df ss)"

text \<open>
  The points (time, concentration) of a per-subject series, as the script hands them to
  \<^verbatim>\<open>ax.plot\<close> (lines 45, 66, 149).
\<close>

definition series_points :: "frame \<Rightarrow> (real \<times> real) list" where
  "series_points sd = map (\<lambda>r. (time_h sd r, concentration sd r)) (rows sd)"

text \<open>
  The rows of one subject in table order, the rows of a series with a concentration above
  0, and the rows of an aggregate table with a mean above 0.
\<close>

definition rows_of_subject :: "frame \<Rightarrow> cell \<Rightarrow> frame" where
  "rows_of_subject df s = df\<lparr>rows := filter (\<lambda>r. subject_id df r = s) (rows df)\<rparr>"

definition positive_rows :: "frame \<Rightarrow> frame" where
  "positive_rows sd = sd\<lparr>rows := filter (\<lambda>r. 0 < concentration sd r) (rows sd)\<rparr>"

definition positive_means :: "frame \<Rightarrow> frame" where
  "positive_means md = md\<lparr>rows := filter (\<lambda>p. positive (field md ''mean'' p)) (rows md)\<rparr>"

text \<open>
  What the script hands to matplotlib: a column of a table as a list of cells; the line
  of a per-subject series (lines 45, 66, 149), the line of its positive part (line 87)
  and the error bars of an aggregate table (lines 105, 126, 153).
\<close>

definition column :: "frame \<Rightarrow> string \<Rightarrow> cell list" where
  "column fr c = map (field fr c) (rows fr)"

definition line_of :: "frame \<Rightarrow> plot_call" where
  "line_of sd = Plot (column sd ''Time_h'') (column sd ''Concentration_mg_L'')"

definition semilog_line_of :: "frame \<Rightarrow> plot_call" where
  "semilog_line_of nz = Semilogy (column nz ''Time_h'') (column nz ''Concentration_mg_L'')"

definition bars_of :: "frame \<Rightarrow> plot_call" where
  "bars_of md = Errorbar (column md ''Time_h'') (column md ''mean'') (column md ''std'')"

text \<open>
  A file with a header line whose data lines are not blank and have no more fields than
  the header: \<^verbatim>\<open>read_csv\<close> loads it as it is.
\<close>

definition well_formed_file :: "frame \<Rightarrow> bool" where
  "well_formed_file csv =
     (columns csv \<noteq> []
      \<and> list_all (\<lambda>r. r \<noteq> [] \<and> length r \<le> length (columns csv)) (rows csv))"

text \<open>
  The columns the script requires, in the order in which it first reads them, and the
  first of them that a table lacks.
\<close>

definition required_columns :: "string list" where
  "required_columns = [''Subject_ID'', ''Time_h'', ''Concentration_mg_L'']"

definition first_missing :: "frame \<Rightarrow> string option" where
  "first_missing csv = find (\<lambda>c. \<not> has_column csv c) required_columns"

section \<open>Example tables\<close>

text \<open>
  Two subjects measured at time 1 (4 and 6 mg/L); only subject 1 measured at time 2.
\<close>

definition two_subjects :: frame where
  "two_subjects =
     \<lparr>columns = [''Subject_ID'', ''Time_h'', ''Concentration_mg_L''],
      rows = [[Num 1, Num 1, Num 4], [Num 2, Num 1, Num 6], [Num 1, Num 2, Num 3]]\<rparr>"

text \<open>One subject with two rows at time 2.\<close>

definition duplicate_rows :: frame where
  "duplicate_rows =
     \<lparr>columns = [''Subject_ID'', ''Time_h'', ''Concentration_mg_L''],
      rows = [[Num 1, Num 2, Num 5], [Num 1, Num 2, Num 7]]\<rparr>"

text \<open>One subject whose row at time 2 precedes its row at time 1 in the file.\<close>

definition unsorted_rows :: frame where
  "unsorted_rows =
     \<lparr>columns = [''Subject_ID'', ''Time_h'', ''Concentration_mg_L''],
      rows = [[Num 1, Num 2, Num 5], [Num 1, Num 1, Num 3]]\<rparr>"

text \<open>Two subjects, each with a pre-dose concentration of 0 at time 0.\<close>

definition predose_zero :: frame where
  "predose_zero =
     \<lparr>columns = [''Subject_ID'', ''Time_h'', ''Concentration_mg_L''],
      rows = [[Num 1, Num 0, Num 0], [Num 1, Num 1, Num 4],
              [Num 2, Num 0, Num 0], [Num 2, Num 1, Num 6]]\<rparr>"

text \<open>A table without the subject column.\<close>

definition missing_subject :: frame where
  "missing_subject =
     \<lparr>columns = [''Time_h'', ''Concentration_mg_L''], rows = [[Num 0, Num 0], [Num 1, Num 4]]\<rparr>"

text \<open>A table without the concentration column.\<close>

definition missing_concentration :: frame where
  "missing_concentration =
     \<lparr>columns = [''Subject_ID'', ''Time_h''], rows = [[Num 1, Num 0], [Num 2, Num 0]]\<rparr>"

section \<open>Basic facts\<close>

lemma getitem_field:
  "has_column df c \<Longrightarrow> getitem df c = Inr (map (field df c) (rows df))"
  by (auto simp: has_column_def getitem_def field_def)

lemma getitem_missing:
  "\<not> has_column df c \<Longrightarrow> getitem df c = Inl (KeyError c)"
  by (auto simp: has_column_def getitem_def)

lemma getitem_column: "has_column fr c \<Longrightarrow> getitem fr c = Inr (column fr c)"
  by (simp add: getitem_field column_def)

lemma zip_map_filter: "map fst (filter snd (zip xs (map p xs))) = filter p xs"
  by (induction xs) auto

lemma select_map: "select df (map p (rows df)) = df\<lparr>rows := filter p (rows df)\<rparr>"
  by (simp add: select_def zip_map_filter)

lemma columns_select [simp]: "columns (select df keep) = columns df"
  by (simp add: select_def)

lemma field_rows_update [simp]: "field (df\<lparr>rows := rs\<rparr>) c = field df c"
  by (simp add: field_def fun_eq_iff)

lemma observers_rows_update [simp]:
  "subject_id (df\<lparr>rows := rs\<rparr>) = subject_id df"
  "time_h (df\<lparr>rows := rs\<rparr>) = time_h df"
  "concentration (df\<lparr>rows := rs\<rparr>) = concentration df"
  by (simp_all add: subject_id_def time_h_def concentration_def fun_eq_iff)

lemma has_column_rows_update [simp]: "has_column (df\<lparr>rows := rs\<rparr>) c = has_column df c"
  by (simp add: has_column_def)

lemma subject_data_rows:
  "has_column df ''Subject_ID'' \<Longrightarrow>
   subject_data df s = Inr (df\<lparr>rows := filter (\<lambda>r. cell_eq (subject_id df r) s) (rows df)\<rparr>)"
  by (simp add: subject_data_def getitem_field select_map[symmetric] subject_id_def comp_def)

lemma set_unique_from: "set (unique_from seen xs) = set xs - set seen"
  by (induction xs arbitrary: seen) auto

lemma distinct_unique_from: "distinct (unique_from seen xs)"
  by (induction xs arbitrary: seen) (auto simp: set_unique_from)

lemma set_unique [simp]: "set (unique xs) = set xs"
  by (simp add: unique_def set_unique_from)

lemma distinct_unique [simp]: "distinct (unique xs)"
  by (simp add: unique_def distinct_unique_from)

lemma unique_empty: "unique xs = [] \<longleftrightarrow> xs = []"
  using set_unique[of xs] by (metis set_empty)

lemma group_values_map:
  "group_values (map f rs) (map g rs) k = map g (filter (\<lambda>r. f r = k) rs)"
  by (induction rs) (auto simp: group_values_def)

lemma nonneg_Num: "nonneg c \<Longrightarrow> \<exists>x. c = Num x \<and> 0 \<le> x"
  by (cases c) simp_all

lemma valid_dataset_rows:
  "valid_dataset df \<Longrightarrow> r \<in> set (rows df) \<Longrightarrow> valid_row df r"
  by (simp add: valid_dataset_def list_all_iff)

lemma valid_time:
  "valid_dataset df \<Longrightarrow> r \<in> set (rows df) \<Longrightarrow> field df ''Time_h'' r = Num (time_h df r)"
  by (auto simp: time_h_def valid_row_def dest!: valid_dataset_rows nonneg_Num)

lemma valid_concentration:
  "valid_dataset df \<Longrightarrow> r \<in> set (rows df) \<Longrightarrow>
   field df ''Concentration_mg_L'' r = Num (concentration df r)"
  by (auto simp: concentration_def valid_row_def dest!: valid_dataset_rows nonneg_Num)

lemma valid_subject:
  "valid_dataset df \<Longrightarrow> r \<in> set (rows df) \<Longrightarrow> subject_id df r \<noteq> NaN"
  by (auto simp: valid_row_def dest!: valid_dataset_rows)

lemma numeric_Num: "filter is_number (map (\<lambda>r. Num (f r)) rs) = map (\<lambda>r. Num (f r)) rs"
  by (induction rs) simp_all

lemma list_ex_Num: "\<not> list_ex is_Str (map (\<lambda>r. Num (f r)) rs)"
  by (induction rs) simp_all


lemmas example_simps =
  valid_dataset_def has_column_def valid_row_def subject_id_def time_h_def concentration_def
  field_def cell_at_def unique_observations_def series_points_def subject_data_def getitem_def
  select_def cell_eq_def data_nonzero_def gt_zero_def

lemmas action_simps =
  return_def bind_def raising_def new_frame_def frame_at_def emit_def getitem_at_def derive_def

lemma valid_two_subjects: "valid_dataset two_subjects"
  by (simp add: valid_dataset_def two_subjects_def has_column_def valid_row_def subject_id_def
      field_def cell_at_def)

section \<open>The aggregate series\<close>

text \<open>
  On a valid dataset \<^verbatim>\<open>mean_data\<close> has one row per distinct time, sorted, holding
  the mean and the standard deviation of the concentrations recorded at that time.
\<close>

lemma mean_data_valid:
  assumes "valid_dataset df"
  shows "mean_data K df = Inr \<lparr>columns = [''Time_h'', ''mean'', ''std''],
           rows = map (\<lambda>k. [k, agg_mean K (map Num (concentrations_at df (num_of k))),
                            agg_std K (map Num (concentrations_at df (num_of k)))])
                      (sort (unique (map (\<lambda>r. Num (time_h df r)) (rows df))))\<rparr>"
proof -
  have t: "map (field df ''Time_h'') (rows df) = map (\<lambda>r. Num (time_h df r)) (rows df)"
    using assms by (simp add: valid_time)
  have c: "map (field df ''Concentration_mg_L'') (rows df)
           = map (\<lambda>r. Num (concentration df r)) (rows df)"
    using assms by (simp add: valid_concentration)
  have g: "group_values (map (\<lambda>r. Num (time_h df r)) (rows df))
             (map (\<lambda>r. Num (concentration df r)) (rows df)) k
           = map Num (concentrations_at df (num_of k))"
    if "k \<in> set (map (\<lambda>r. Num (time_h df r)) (rows df))" for k
    using that by (auto simp: group_values_map concentrations_at_def intro!: arg_cong2[where f=filter])
  have f: "filter (\<lambda>k. k \<noteq> NaN) (map (\<lambda>r. Num (time_h df r)) (rows df))
           = map (\<lambda>r. Num (time_h df r)) (rows df)"
    by (induction "rows df") (auto simp: filter_id_conv)
  from assms have h: "has_column df ''Time_h''" "has_column df ''Concentration_mg_L''"
    by (simp_all add: valid_dataset_def)
  show ?thesis
    using g by (simp add: mean_data_def getitem_field h t c list_ex_Num group_keys_def f)
qed



lemma map_of_keys:
  "set ks \<subseteq> range Num \<Longrightarrow> Num t \<in> set ks \<Longrightarrow>
   map_of (map (\<lambda>k. (num_of k, F k)) ks) t = Some (F (Num t))"
  by (induction ks) auto

lemma aggregate_series_valid:
  assumes "valid_dataset df"
  shows "aggregate_series K df =
           Inr (map (\<lambda>k. (num_of k, agg_mean K (map Num (concentrations_at df (num_of k))),
                                 agg_std K (map Num (concentrations_at df (num_of k)))))
                    (sort (unique (map (\<lambda>r. Num (time_h df r)) (rows df)))))"
  unfolding aggregate_series_def mean_data_valid[OF assms]
  by (auto simp: points_def time_h_def field_def cell_at_def)

lemma aggregate_series_at:
  assumes "valid_dataset df" and "aggregate_series K df = Inr ps"
    and "t \<in> set (time_points df)"
  shows "map_of ps t = Some (agg_mean K (map Num (concentrations_at df t)),
                             agg_std K (map Num (concentrations_at df t)))"
proof -
  let ?ks = "sort (unique (map (\<lambda>r. Num (time_h df r)) (rows df)))"
  have "set ?ks \<subseteq> range Num" "Num t \<in> set ?ks"
    using assms(3) by (auto simp: time_points_def)
  from map_of_keys[OF this,
      of "\<lambda>k. (agg_mean K (map Num (concentrations_at df (num_of k))),
                agg_std K (map Num (concentrations_at df (num_of k))))"]
  show ?thesis
    using assms(2) unfolding aggregate_series_valid[OF assms(1)] by auto
qed

lemma concentrations_at_nonempty:
  "t \<in> set (time_points df) \<longleftrightarrow> concentrations_at df t \<noteq> []"
  by (auto simp: time_points_def concentrations_at_def filter_empty_conv)

lemma agg_mean_Num:
  "xs \<noteq> [] \<Longrightarrow>
   agg_mean K (map Num xs) = float_div K (float_sum K (map Num xs)) (length xs)"
  using numeric_Num[of "\<lambda>x. x" xs] by (simp add: agg_mean_def)

lemma agg_std_single: "length xs = 1 \<Longrightarrow> agg_std K (map Num xs) = NaN"
  using numeric_Num[of "\<lambda>x. x" xs] by (simp add: agg_std_def)

lemma aggregate_series_two_subjects:
  "aggregate_series K two_subjects
   = Inr [(1, float_div K (float_sum K [Num 4, Num 6]) 2, float_std K 1 [Num 4, Num 6]),
          (2, float_div K (float_sum K [Num 3]) 1, NaN)]"
  by (simp add: aggregate_series_def mean_data_def two_subjects_def getitem_def cell_at_def
      group_keys_def unique_def group_values_def agg_mean_def agg_std_def points_def time_h_def
      field_def numeral_2_eq_2)


lemma concentrations_at_two_subjects:
  "concentrations_at two_subjects 1 = [4, 6]" "concentrations_at two_subjects 2 = [3]"
  by (simp_all add: concentrations_at_def two_subjects_def time_h_def concentration_def
      field_def cell_at_def)



text \<open>
  Where the float64 sum of a group and its quotient by the count are exact, as they are
  for 4.0 and 6.0, the mean is the arithmetic mean of the group as a real number. In
  general the two differ by the rounding of the arithmetic.
\<close>

lemma aggregate_series_mean_exact:
  assumes "valid_dataset df" and "t \<in> set (time_points df)"
    and "float_sum K (map Num (concentrations_at df t))
         = Num (sum_list (concentrations_at df t))"
    and "float_div K (Num (sum_list (concentrations_at df t))) (length (concentrations_at df t))
         = Num (sum_list (concentrations_at df t) / real (length (concentrations_at df t)))"
  shows "\<exists>ps. aggregate_series K df = Inr ps
           \<and> map_option fst (map_of ps t)
               = Some (Num (sum_list (concentrations_at df t)
                            / real (length (concentrations_at df t))))"
proof -
  obtain ps where ps: "aggregate_series K df = Inr ps"
    using aggregate_series_valid[OF assms(1)] by simp
  have "concentrations_at df t \<noteq> []"
    using assms(2) by (simp add: concentrations_at_nonempty)
  then show ?thesis
    using ps assms(3,4) by (simp add: aggregate_series_at[OF assms(1) ps assms(2)] agg_mean_Num)
qed

text \<open>
  C1, as the script behaves. At a time with exactly one observation the standard
  deviation of the aggregate point is the missing value NaN, not 0: \<^verbatim>\<open>std\<close> is
  undefined for one value and nothing in the script replaces it. No error is raised.
\<close>

theorem aggregate_series_std_single:
  assumes "valid_dataset df" and "length (concentrations_at df t) = 1"
  shows "\<exists>ps. aggregate_series K df = Inr ps \<and> map_option snd (map_of ps t) = Some NaN"
proof -
  obtain ps where ps: "aggregate_series K df = Inr ps"
    using aggregate_series_valid[OF assms(1)] by simp
  have "concentrations_at df t \<noteq> []"
    using assms(2) by auto
  then have "t \<in> set (time_points df)"
    by (simp add: concentrations_at_nonempty)
  then show ?thesis
    using ps assms(2) by (simp add: aggregate_series_at[OF assms(1) ps] agg_std_single)
qed

theorem aggregate_series_std_single_witness:
  "\<forall>K. valid_dataset two_subjects
     \<and> length (concentrations_at two_subjects 2) = 1
     \<and> (\<exists>ps. aggregate_series K two_subjects = Inr ps
           \<and> map_option snd (map_of ps 2) = Some NaN)"
proof
  fix K
  show "valid_dataset two_subjects
     \<and> length (concentrations_at two_subjects 2) = 1
     \<and> (\<exists>ps. aggregate_series K two_subjects = Inr ps
           \<and> map_option snd (map_of ps 2) = Some NaN)"
    using aggregate_series_std_single[OF valid_two_subjects, of 2 K]
    by (simp add: concentrations_at_two_subjects valid_two_subjects)
qed

text \<open>
  The claim C1 as stated fails: in \<open>two_subjects\<close> only subject 1 is observed at time 2,
  and whatever the float64 arithmetic, the aggregate point at time 2 has the standard
  deviation NaN, which is not 0.
\<close>

theorem aggregate_series_std_single_counterexample:
  "\<forall>K. valid_dataset two_subjects
     \<and> length (concentrations_at two_subjects 2) = 1
     \<and> aggregate_series K two_subjects
         = Inr [(1, float_div K (float_sum K [Num 4, Num 6]) 2, float_std K 1 [Num 4, Num 6]),
                (2, float_div K (float_sum K [Num 3]) 1, NaN)]
     \<and> NaN \<noteq> Num 0"
  by (simp add: valid_two_subjects concentrations_at_two_subjects
      aggregate_series_two_subjects)

section \<open>The per-subject series\<close>

lemma filter_cell_eq:
  assumes "valid_dataset df"
  shows "filter (\<lambda>r. cell_eq (subject_id df r) s) (rows df)
         = filter (\<lambda>r. subject_id df r = s) (rows df)"
  using valid_subject[OF assms] by (intro filter_cong) (auto simp: cell_eq_def)

lemma subject_data_valid:
  assumes "valid_dataset df"
  shows "subject_data df s = Inr (df\<lparr>rows := filter (\<lambda>r. subject_id df r = s) (rows df)\<rparr>)"
  using assms by (simp add: subject_data_rows valid_dataset_def filter_cell_eq[OF assms])

lemma for_subjects_valid:
  assumes "valid_dataset df"
  shows "for_subjects df ss
         = Inr (map (\<lambda>s. (s, df\<lparr>rows := filter (\<lambda>r. subject_id df r = s) (rows df)\<rparr>)) ss)"
  by (induction ss) (simp_all add: subject_data_valid[OF assms])

lemma subject_series_valid:
  assumes "valid_dataset df"
  shows "subject_series df
         = Inr (map (\<lambda>s. (s, df\<lparr>rows := filter (\<lambda>r. subject_id df r = s) (rows df)\<rparr>))
                  (unique (map (subject_id df) (rows df))))"
  using assms
  by (simp add: subject_series_def subjects_def getitem_field valid_dataset_def
      for_subjects_valid[OF assms] subject_id_def[abs_def])

lemma valid_rows_of_subject: "valid_dataset df \<Longrightarrow> valid_dataset (rows_of_subject df s)"
  by (auto simp: rows_of_subject_def valid_dataset_def has_column_def valid_row_def list_all_iff)

lemma data_nonzero_valid:
  assumes "valid_dataset sd"
  shows "data_nonzero sd = Inr (positive_rows sd)"
proof -
  have c: "getitem sd ''Concentration_mg_L''
           = Inr (map (\<lambda>r. Num (concentration sd r)) (rows sd))"
    using assms valid_concentration[OF assms] by (simp add: getitem_field valid_dataset_def)
  have "data_nonzero sd = Inr (select sd (map (\<lambda>r. 0 < concentration sd r) (rows sd)))"
    unfolding data_nonzero_def c by (simp add: gt_zero_def list_ex_Num comp_def)
  then show ?thesis
    by (simp only: select_map positive_rows_def)
qed

lemma mset_concat_groups:
  "distinct ks \<Longrightarrow>
   mset (concat (map (\<lambda>k. filter (\<lambda>r. f r = k) xs) ks))
   = filter_mset (\<lambda>r. f r \<in> set ks) (mset xs)"
proof (induction ks)
  case Nil
  then show ?case by simp
next
  case (Cons k ks)
  then show ?case
    by (auto intro!: multiset_eqI)
qed

lemma length_filter_distinct:
  "distinct ks \<Longrightarrow> k \<in> set ks \<Longrightarrow> length (filter (\<lambda>s. P s \<and> k = s) ks) = (if P k then 1 else 0)"
  by (induction ks) (auto simp: filter_empty_conv)

lemma two_in_filter:
  assumes "i < j" "j < length xs" "P (xs ! i)" "P (xs ! j)"
  shows "2 \<le> length (filter P xs)"
proof -
  have xs: "xs = take j xs @ xs ! j # drop (Suc j) xs"
    using assms(2) by (simp add: id_take_nth_drop)
  have "xs ! i \<in> set (take j xs)"
    using assms(1,2) by (auto simp: in_set_conv_nth intro!: exI[of _ i])
  then have "filter P (take j xs) \<noteq> []"
    using assms(3) by (auto simp: filter_empty_conv)
  then have "1 \<le> length (filter P (take j xs))"
    by (cases "filter P (take j xs)") simp_all
  moreover have "length (filter P xs)
                 = length (filter P (take j xs)) + length (filter P (xs ! j # drop (Suc j) xs))"
    by (subst xs) simp
  ultimately show ?thesis
    using assms(4) by simp
qed

text \<open>
  C7. On every valid dataset the per-subject series are derived without error, one per
  distinct subject; the multiset union of their rows is the multiset of the rows of the
  dataset; and every row of the dataset is in the series of exactly one subject.
\<close>

theorem subject_series_partition:
  assumes "valid_dataset df"
  shows "\<exists>series. subject_series df = Inr series
           \<and> distinct (map fst series)
           \<and> mset (concat (map (\<lambda>(s, sd). rows sd) series)) = mset (rows df)
           \<and> (\<forall>r \<in> set (rows df).
                 length (filter (\<lambda>(s, sd). r \<in> set (rows sd)) series) = 1)"
proof -
  let ?ks = "unique (map (subject_id df) (rows df))"
  let ?series = "map (\<lambda>s. (s, df\<lparr>rows := filter (\<lambda>r. subject_id df r = s) (rows df)\<rparr>)) ?ks"
  have s: "subject_series df = Inr ?series"
    by (rule subject_series_valid[OF assms])
  have d: "distinct (map fst ?series)"
    by (simp add: comp_def)
  have "concat (map (\<lambda>(s, sd). rows sd) ?series)
        = concat (map (\<lambda>k. filter (\<lambda>r. subject_id df r = k) (rows df)) ?ks)"
    by (simp add: comp_def)
  moreover have "filter_mset (\<lambda>r. subject_id df r \<in> set ?ks) (mset (rows df)) = mset (rows df)"
    by (auto simp: filter_mset_eq_conv)
  ultimately have m: "mset (concat (map (\<lambda>(s, sd). rows sd) ?series)) = mset (rows df)"
    using mset_concat_groups[of ?ks "subject_id df" "rows df"] by simp
  have o: "length (filter (\<lambda>(s, sd). r \<in> set (rows sd)) ?series) = 1"
    if "r \<in> set (rows df)" for r
  proof -
    have "length (filter (\<lambda>(s, sd). r \<in> set (rows sd)) ?series)
          = length (filter (\<lambda>s. r \<in> set (rows df) \<and> subject_id df r = s) ?ks)"
      by (simp add: filter_map comp_def)
    also have "\<dots> = 1"
      using that length_filter_distinct[of ?ks "subject_id df r" "\<lambda>s. r \<in> set (rows df)"]
      by simp
    finally show ?thesis .
  qed
  show ?thesis
    using s d m o by blast
qed

theorem subject_series_partition_witness:
  "valid_dataset two_subjects
   \<and> (\<exists>series. subject_series two_subjects = Inr series
         \<and> map fst series = [Num 1, Num 2]
         \<and> map (\<lambda>(s, sd). rows sd) series
             = [[[Num 1, Num 1, Num 4], [Num 1, Num 2, Num 3]], [[Num 2, Num 1, Num 6]]]
         \<and> mset (concat (map (\<lambda>(s, sd). rows sd) series)) = mset (rows two_subjects)
         \<and> length (filter (\<lambda>(s, sd). [Num 2, Num 1, Num 6] \<in> set (rows sd)) series) = 1)"
proof -
  have "subject_series two_subjects
        = Inr [(Num 1, two_subjects\<lparr>rows := [[Num 1, Num 1, Num 4], [Num 1, Num 2, Num 3]]\<rparr>),
               (Num 2, two_subjects\<lparr>rows := [[Num 2, Num 1, Num 6]]\<rparr>)]"
    by (simp add: subject_series_def subjects_def unique_def two_subjects_def getitem_def
        cell_at_def subject_data_def select_def cell_eq_def)
  then show ?thesis
    using subject_series_partition[OF valid_two_subjects] valid_two_subjects
    by (auto simp: two_subjects_def)
qed

text \<open>
  C2, as the script behaves. When two rows of a valid table share subject and time,
  deriving that subject's series succeeds: the series holds every row of the subject in
  table order, so it has at least two points at that time. Nothing checks for duplicates.
\<close>

theorem subject_data_keeps_duplicates:
  assumes "valid_dataset df"
    and "i < j" and "j < length (rows df)"
    and "subject_id df (rows df ! i) = s" and "subject_id df (rows df ! j) = s"
    and "time_h df (rows df ! i) = t" and "time_h df (rows df ! j) = t"
  shows "\<exists>sd. subject_data df s = Inr sd
           \<and> rows sd = filter (\<lambda>r. subject_id df r = s) (rows df)
           \<and> 2 \<le> length (filter (\<lambda>p. fst p = t) (series_points sd))"
proof -
  let ?sd = "df\<lparr>rows := filter (\<lambda>r. subject_id df r = s) (rows df)\<rparr>"
  have "2 \<le> length (filter (\<lambda>r. subject_id df r = s \<and> time_h df r = t) (rows df))"
    using assms(2-7) by (intro two_in_filter[of i j]) simp_all
  also have "length (filter (\<lambda>r. subject_id df r = s \<and> time_h df r = t) (rows df))
             = length (filter (\<lambda>p. fst p = t) (series_points ?sd))"
    by (simp add: series_points_def filter_map comp_def conj_commute)
  finally show ?thesis
    using subject_data_valid[OF assms(1), of s] by simp
qed

theorem subject_data_keeps_duplicates_witness:
  "valid_dataset duplicate_rows
   \<and> subject_id duplicate_rows (rows duplicate_rows ! 0) = Num 1
   \<and> subject_id duplicate_rows (rows duplicate_rows ! 1) = Num 1
   \<and> time_h duplicate_rows (rows duplicate_rows ! 0) = 2
   \<and> time_h duplicate_rows (rows duplicate_rows ! 1) = 2
   \<and> (\<exists>sd. subject_data duplicate_rows (Num 1) = Inr sd
         \<and> rows sd = [[Num 1, Num 2, Num 5], [Num 1, Num 2, Num 7]]
         \<and> 2 \<le> length (filter (\<lambda>p. fst p = 2) (series_points sd)))"
proof -
  have v: "valid_dataset duplicate_rows"
    by (simp add: duplicate_rows_def example_simps)
  have h: "subject_id duplicate_rows (rows duplicate_rows ! 0) = Num 1"
    "subject_id duplicate_rows (rows duplicate_rows ! 1) = Num 1"
    "time_h duplicate_rows (rows duplicate_rows ! 0) = 2"
    "time_h duplicate_rows (rows duplicate_rows ! 1) = 2"
    by (simp_all add: duplicate_rows_def example_simps)
  have "filter (\<lambda>r. subject_id duplicate_rows r = Num 1) (rows duplicate_rows)
        = [[Num 1, Num 2, Num 5], [Num 1, Num 2, Num 7]]"
    by (simp add: duplicate_rows_def example_simps)
  with subject_data_keeps_duplicates[OF v _ _ h] v h show ?thesis
    by (auto simp: duplicate_rows_def)
qed

text \<open>
  The claim C2 as stated fails: \<open>duplicate_rows\<close> has two rows of subject 1 at time 2,
  and the derivation returns both rows instead of failing.
\<close>

theorem subject_data_duplicates_counterexample:
  "\<not> unique_observations duplicate_rows
   \<and> subject_data duplicate_rows (Num 1) = Inr duplicate_rows
   \<and> rows duplicate_rows = [[Num 1, Num 2, Num 5], [Num 1, Num 2, Num 7]]"
  by (simp add: duplicate_rows_def example_simps)

text \<open>
  C4, as the script behaves. The series of a subject holds the subject's rows in the
  row order of the table: nothing sorts them. Its points are strictly ascending by time
  exactly when the subject's rows are strictly ascending by time in the table.
\<close>

theorem subject_series_order:
  assumes "valid_dataset df"
  shows "\<exists>sd. subject_data df s = Inr sd
           \<and> rows sd = filter (\<lambda>r. subject_id df r = s) (rows df)
           \<and> (sorted_wrt (<) (map fst (series_points sd))
                \<longleftrightarrow> sorted_wrt (<) (map (time_h df)
                                        (filter (\<lambda>r. subject_id df r = s) (rows df))))"
  using subject_data_valid[OF assms, of s] by (simp add: series_points_def comp_def)

theorem subject_series_order_witness:
  "valid_dataset two_subjects
   \<and> (\<exists>sd. subject_data two_subjects (Num 1) = Inr sd
         \<and> rows sd = [[Num 1, Num 1, Num 4], [Num 1, Num 2, Num 3]]
         \<and> sorted_wrt (<) (map fst (series_points sd)))"
proof -
  have "filter (\<lambda>r. subject_id two_subjects r = Num 1) (rows two_subjects)
        = [[Num 1, Num 1, Num 4], [Num 1, Num 2, Num 3]]"
    by (simp add: two_subjects_def example_simps)
  moreover have "sorted_wrt (<) (map (time_h two_subjects)
                   [[Num 1, Num 1, Num 4], [Num 1, Num 2, Num 3]])"
    by (simp add: two_subjects_def example_simps)
  ultimately show ?thesis
    using subject_series_order[OF valid_two_subjects, of "Num 1"] valid_two_subjects
    by auto
qed

text \<open>
  The claim C4 as stated fails: \<open>unsorted_rows\<close> is valid and has no duplicate
  observation, but the series of subject 1 has the times 2, 1.
\<close>

theorem subject_series_order_counterexample:
  "valid_dataset unsorted_rows
   \<and> unique_observations unsorted_rows
   \<and> subject_data unsorted_rows (Num 1) = Inr unsorted_rows
   \<and> map fst (series_points unsorted_rows) = [2, 1]
   \<and> \<not> sorted_wrt (<) (map fst (series_points unsorted_rows))"
  by (simp add: unsorted_rows_def example_simps)

text \<open>
  C10. On every valid dataset and for every subject, the series of the semi-logarithmic
  chart is derived without error and holds exactly the rows of the subject's series
  whose concentration is greater than 0, in the same order, under the same header.
  Rows with concentration 0 are dropped without an error.
\<close>

theorem data_nonzero_positive:
  assumes "valid_dataset df"
  shows "\<exists>sd nz. subject_data df s = Inr sd
           \<and> data_nonzero sd = Inr nz
           \<and> columns nz = columns sd
           \<and> rows nz = filter (\<lambda>r. 0 < concentration sd r) (rows sd)"
proof -
  have "subject_data df s = Inr (rows_of_subject df s)"
    by (simp add: subject_data_valid[OF assms] rows_of_subject_def)
  moreover have "data_nonzero (rows_of_subject df s) = Inr (positive_rows (rows_of_subject df s))"
    by (rule data_nonzero_valid[OF valid_rows_of_subject[OF assms]])
  ultimately show ?thesis
    by (simp add: positive_rows_def)
qed

theorem data_nonzero_positive_witness:
  "valid_dataset predose_zero
   \<and> (\<exists>sd nz. subject_data predose_zero (Num 1) = Inr sd
         \<and> rows sd = [[Num 1, Num 0, Num 0], [Num 1, Num 1, Num 4]]
         \<and> data_nonzero sd = Inr nz
         \<and> rows nz = [[Num 1, Num 1, Num 4]])"
proof -
  have v: "valid_dataset predose_zero"
    by (simp add: predose_zero_def example_simps)
  have sd: "subject_data predose_zero (Num 1)
            = Inr (predose_zero\<lparr>rows := [[Num 1, Num 0, Num 0], [Num 1, Num 1, Num 4]]\<rparr>)"
    by (simp add: predose_zero_def example_simps)
  have "filter (\<lambda>r. 0 < concentration predose_zero r)
          [[Num 1, Num 0, Num 0], [Num 1, Num 1, Num 4]] = [[Num 1, Num 1, Num 4]]"
    by (simp add: predose_zero_def example_simps)
  then show ?thesis
    using data_nonzero_positive[OF v, of "Num 1"] v sd by auto
qed

section \<open>The script\<close>

lemma bind_raises: "fst (m st) = Inl e \<Longrightarrow> fst (bind m f st) = Inl e"
  by (cases "m st") (auto simp: bind_def)

lemma getitem_at_result:
  "getitem_at a c st = (getitem (heap st ! a) c, st)"
  by (simp add: getitem_at_def bind_def frame_at_def raising_def split: sum.splits)

lemma derive_result:
  "derive f a st =
     (case f (heap st ! a) of
        Inl e \<Rightarrow> (Inl e, st)
      | Inr fr \<Rightarrow> (Inr (length (heap st)), st\<lparr>heap := heap st @ [fr]\<rparr>))"
  by (simp add: derive_def bind_def frame_at_def raising_def new_frame_def split: sum.splits)

lemma read_csv_well_formed:
  assumes "well_formed_file csv"
  shows "read_csv csv start = (Inr 0, \<lparr>heap = [csv], calls = []\<rparr>)"
proof -
  from assms have c: "columns csv \<noteq> []"
    and r: "\<forall>r \<in> set (rows csv). r \<noteq> [] \<and> length r \<le> length (columns csv)"
    by (simp_all add: well_formed_file_def list_all_iff)
  from r have d: "data_lines csv = rows csv"
    by (simp add: data_lines_def filter_id_conv)
  have w: "line_width csv = length (columns csv)"
    using r by (cases "rows csv") (simp_all add: line_width_def d)
  have "\<not> list_ex (\<lambda>r. line_width csv < length r) (data_lines csv)"
    using r by (auto simp: list_ex_iff d w)
  then show ?thesis
    using c by (simp add: read_csv_def d w new_frame_def start_def)
qed

text \<open>
  A file without a header line: the script stops at line 21 with
  \<^verbatim>\<open>EmptyDataError\<close>, before anything is derived or drawn.
\<close>

lemma script_no_header:
  "columns csv = [] \<Longrightarrow> script K csv start = (Inl EmptyDataError, start)"
  by (simp add: script_def read_csv_def bind_def raising_def)

lemma plot_subject_missing:
  assumes "has_column (heap st ! df) ''Subject_ID''"
    and "find (\<lambda>c. \<not> has_column (heap st ! df) c) [''Time_h'', ''Concentration_mg_L''] = Some c"
  shows "fst (plot_subject df s st) = Inl (KeyError c)"
proof (cases "has_column (heap st ! df) ''Time_h''")
  case True
  with assms show ?thesis
    by (simp add: plot_subject_def bind_def derive_result subject_data_rows getitem_at_result
        getitem_field getitem_missing split: if_splits)
next
  case False
  with assms show ?thesis
    by (simp add: plot_subject_def bind_def derive_result subject_data_rows getitem_at_result
        getitem_missing split: if_splits)
qed

lemma mean_data_missing:
  assumes "find (\<lambda>c. \<not> has_column fr c) [''Time_h'', ''Concentration_mg_L''] = Some c"
  shows "mean_data K fr
         = Inl (KeyError (if c = ''Time_h'' then c else ''Column not found: '' @ c))"
  using assms
  by (cases "has_column fr ''Time_h''")
     (auto simp: mean_data_def getitem_field getitem_missing split: if_splits)

lemma charts_missing:
  assumes "first_missing (heap st ! df) = Some c"
  shows "fst (charts K df st)
         = Inl (KeyError (if c = ''Concentration_mg_L'' \<and> rows (heap st ! df) = []
                          then ''Column not found: '' @ c else c))"
    and "c = ''Subject_ID'' \<Longrightarrow> snd (charts K df st) = st"
proof -
  let ?fr = "heap st ! df"
  let ?msg = "if c = ''Concentration_mg_L'' \<and> rows ?fr = []
              then ''Column not found: '' @ c else c"
  show "c = ''Subject_ID'' \<Longrightarrow> snd (charts K df st) = st"
    using assms
    by (simp add: first_missing_def required_columns_def charts_def bind_def getitem_at_result
        getitem_missing split: if_splits)
  show "fst (charts K df st) = Inl (KeyError ?msg)"
  proof (cases "has_column ?fr ''Subject_ID''")
    case False
    with assms show ?thesis
      by (auto simp: first_missing_def required_columns_def charts_def bind_def getitem_at_result
          getitem_missing)
  next
    case True
    with assms
    have f: "find (\<lambda>c. \<not> has_column ?fr c) [''Time_h'', ''Concentration_mg_L''] = Some c"
      by (simp add: first_missing_def required_columns_def)
    then have c: "c = ''Time_h'' \<or> c = ''Concentration_mg_L''"
      by (auto split: if_splits)
    let ?ids = "map (field ?fr ''Subject_ID'') (rows ?fr)"
    show ?thesis
    proof (cases "unique ?ids")
      case Nil
      then have "rows ?fr = []"
        by (simp add: unique_empty)
      with Nil c show ?thesis
        using True mean_data_missing[OF f]
        by (auto simp: charts_def bind_def getitem_at_result getitem_field return_def emit_def
            derive_result)
    next
      case (Cons s ss)
      then have "rows ?fr \<noteq> []"
        using unique_empty[of ?ids] by auto
      have "fst (for_each (s # ss) (plot_subject df) st) = Inl (KeyError c)"
        using plot_subject_missing[OF True f, of s] by (simp add: bind_raises)
      then have "fst (bind (for_each (unique ?ids) (plot_subject df)) rest st) = Inl (KeyError c)"
        for rest :: "unit \<Rightarrow> unit action"
        unfolding Cons by (rule bind_raises)
      then show ?thesis
        using True \<open>rows ?fr \<noteq> []\<close>
        by (simp add: charts_def getitem_at_result getitem_field
            bind_def[of "getitem_at df ''Subject_ID''"])
    qed
  qed
qed

text \<open>
  C3, as the script behaves. When a file has a header line, and data lines that fit
  it, but lacks a required column, reading it succeeds: line 21 checks no label. The
  script then stops with a \<^verbatim>\<open>KeyError\<close> that names the first required column the
  table lacks, in the order subject, time, concentration (for a table without rows that
  lacks the concentration column, inside the message
  \<^verbatim>\<open>Column not found: Concentration_mg_L\<close>). When the subject column is the one
  missing, nothing has been derived or drawn at that point.
\<close>

theorem script_missing_column:
  assumes "well_formed_file csv" and "first_missing csv = Some c"
  shows "read_csv csv start = (Inr 0, \<lparr>heap = [csv], calls = []\<rparr>)
         \<and> fst (script K csv start)
             = Inl (KeyError (if c = ''Concentration_mg_L'' \<and> rows csv = []
                              then ''Column not found: '' @ c else c))
         \<and> (c = ''Subject_ID'' \<longrightarrow> snd (script K csv start) = \<lparr>heap = [csv], calls = []\<rparr>)"
proof -
  let ?st = "\<lparr>heap = [csv], calls = []\<rparr>"
  have r: "read_csv csv start = (Inr 0, ?st)"
    by (rule read_csv_well_formed[OF assms(1)])
  have "first_missing (heap ?st ! 0) = Some c"
    using assms(2) by simp
  from charts_missing[OF this, of K] r show ?thesis
    by (simp add: script_def bind_def)
qed

theorem script_missing_column_witness:
  "\<forall>K. well_formed_file missing_subject
     \<and> first_missing missing_subject = Some ''Subject_ID''
     \<and> read_csv missing_subject start = (Inr 0, \<lparr>heap = [missing_subject], calls = []\<rparr>)
     \<and> fst (script K missing_subject start) = Inl (KeyError ''Subject_ID'')
     \<and> snd (script K missing_subject start) = \<lparr>heap = [missing_subject], calls = []\<rparr>"
proof
  fix K
  have w: "well_formed_file missing_subject"
    by (simp add: well_formed_file_def missing_subject_def)
  have f: "first_missing missing_subject = Some ''Subject_ID''"
    by (simp add: first_missing_def required_columns_def has_column_def missing_subject_def)
  from script_missing_column[OF w f, of K] w f
  show "well_formed_file missing_subject
     \<and> first_missing missing_subject = Some ''Subject_ID''
     \<and> read_csv missing_subject start = (Inr 0, \<lparr>heap = [missing_subject], calls = []\<rparr>)
     \<and> fst (script K missing_subject start) = Inl (KeyError ''Subject_ID'')
     \<and> snd (script K missing_subject start) = \<lparr>heap = [missing_subject], calls = []\<rparr>"
    by simp
qed

text \<open>
  The claim C3 as stated fails: \<open>missing_concentration\<close> lacks the concentration
  column, yet line 21 reads it without error; and the first pass of the loop at line 43
  derives the series of subject 1 (line 44, the second object of the heap) before line 45
  raises a \<^verbatim>\<open>KeyError\<close>.
\<close>

theorem script_missing_column_counterexample:
  "\<not> has_column missing_concentration ''Concentration_mg_L''
   \<and> read_csv missing_concentration start
       = (Inr 0, \<lparr>heap = [missing_concentration], calls = []\<rparr>)
   \<and> plot_subject 0 (Num 1) \<lparr>heap = [missing_concentration], calls = []\<rparr>
       = (Inl (KeyError ''Concentration_mg_L''),
          \<lparr>heap = [missing_concentration, missing_concentration\<lparr>rows := [[Num 1, Num 0]]\<rparr>],
           calls = []\<rparr>)"
  by (simp add: read_csv_def data_lines_def line_width_def start_def
      missing_concentration_def has_column_def plot_subject_def action_simps getitem_def
      subject_data_def select_def cell_eq_def cell_at_def)

text \<open>
  The table \<open>missing_concentration\<close> is read without error. The script fails only at
  line 45, in the first pass of the first loop, after line 44 has derived the series of
  subject 1 (the second object of the heap); the exception is a \<^verbatim>\<open>KeyError\<close>. The
  aggregation is never reached.
\<close>

lemma script_missing_concentration:
  "script K missing_concentration start
   = (Inl (KeyError ''Concentration_mg_L''),
      \<lparr>heap = [missing_concentration, missing_concentration\<lparr>rows := [[Num 1, Num 0]]\<rparr>],
       calls = []\<rparr>)"
  by (simp add: script_def charts_def read_csv_def data_lines_def line_width_def start_def
      missing_concentration_def plot_subject_def action_simps getitem_def
      unique_def subject_data_def select_def cell_eq_def cell_at_def)

lemma plot_subject_valid:
  assumes "df < length (heap st)" and "heap st ! df = fr" and "valid_dataset fr"
  shows "plot_subject df s st
         = (Inr (), st\<lparr>heap := heap st @ [rows_of_subject fr s],
                       calls := calls st @ [line_of (rows_of_subject fr s)]\<rparr>)"
proof -
  have "valid_dataset (rows_of_subject fr s)"
    by (rule valid_rows_of_subject[OF assms(3)])
  then have "has_column (rows_of_subject fr s) ''Time_h''"
    "has_column (rows_of_subject fr s) ''Concentration_mg_L''"
    by (simp_all add: valid_dataset_def)
  then show ?thesis
    using assms(2)
    by (simp add: plot_subject_def bind_def derive_result subject_data_valid[OF assms(3)]
        rows_of_subject_def[symmetric] getitem_at_result getitem_column emit_def line_of_def)
qed

lemma for_each_plot_valid:
  assumes "df < length (heap st)" and "heap st ! df = fr" and "valid_dataset fr"
  shows "for_each ks (plot_subject df) st
         = (Inr (), st\<lparr>heap := heap st @ map (rows_of_subject fr) ks,
                       calls := calls st @ map (\<lambda>s. line_of (rows_of_subject fr s)) ks\<rparr>)"
  using assms(1,2)
proof (induction ks arbitrary: st)
  case Nil
  then show ?case by (simp add: return_def)
next
  case (Cons k ks)
  let ?st1 = "st\<lparr>heap := heap st @ [rows_of_subject fr k],
                 calls := calls st @ [line_of (rows_of_subject fr k)]\<rparr>"
  have 1: "df < length (heap ?st1)" "heap ?st1 ! df = fr"
    using Cons.prems by (simp_all add: nth_append)
  show ?case
    by (simp add: bind_def plot_subject_valid[OF Cons.prems assms(3)] Cons.IH[OF 1])
qed

lemma semilogy_subject_valid:
  assumes "df < length (heap st)" and "heap st ! df = fr" and "valid_dataset fr"
  shows "semilogy_subject df s st
         = (Inr (), st\<lparr>heap := heap st @ [rows_of_subject fr s,
                                          positive_rows (rows_of_subject fr s)],
                       calls := calls st
                                @ [semilog_line_of (positive_rows (rows_of_subject fr s))]\<rparr>)"
proof -
  have v: "valid_dataset (rows_of_subject fr s)"
    by (rule valid_rows_of_subject[OF assms(3)])
  then have "has_column (positive_rows (rows_of_subject fr s)) ''Time_h''"
    "has_column (positive_rows (rows_of_subject fr s)) ''Concentration_mg_L''"
    by (simp_all add: valid_dataset_def positive_rows_def)
  then show ?thesis
    using assms(2)
    by (simp add: semilogy_subject_def bind_def derive_result subject_data_valid[OF assms(3)]
        rows_of_subject_def[symmetric] data_nonzero_valid[OF v] getitem_at_result
        getitem_column emit_def semilog_line_of_def nth_append)
qed

lemma for_each_semilogy_valid:
  assumes "df < length (heap st)" and "heap st ! df = fr" and "valid_dataset fr"
  shows "for_each ks (semilogy_subject df) st
         = (Inr (), st\<lparr>heap := heap st
                                @ concat (map (\<lambda>s. [rows_of_subject fr s,
                                                     positive_rows (rows_of_subject fr s)]) ks),
                       calls := calls st
                                @ map (\<lambda>s. semilog_line_of (positive_rows (rows_of_subject fr s)))
                                      ks\<rparr>)"
  using assms(1,2)
proof (induction ks arbitrary: st)
  case Nil
  then show ?case by (simp add: return_def)
next
  case (Cons k ks)
  let ?st1 = "st\<lparr>heap := heap st @ [rows_of_subject fr k, positive_rows (rows_of_subject fr k)],
                 calls := calls st @ [semilog_line_of (positive_rows (rows_of_subject fr k))]\<rparr>"
  have 1: "df < length (heap ?st1)" "heap ?st1 ! df = fr"
    using Cons.prems by (simp_all add: nth_append)
  show ?case
    by (simp add: bind_def semilogy_subject_valid[OF Cons.prems assms(3)] Cons.IH[OF 1])
qed

lemma errorbar_result:
  assumes "columns (heap st ! md) = [''Time_h'', ''mean'', ''std'']"
  shows "errorbar md st = (Inr (), st\<lparr>calls := calls st @ [bars_of (heap st ! md)]\<rparr>)"
proof -
  have "has_column (heap st ! md) ''Time_h''" "has_column (heap st ! md) ''mean''"
    "has_column (heap st ! md) ''std''"
    using assms by (simp_all add: has_column_def)
  then show ?thesis
    by (simp add: errorbar_def bind_def getitem_at_result getitem_column emit_def bars_of_def)
qed

lemma agg_mean_not_Str:
  "(\<And>s n. \<not> is_Str (float_div K s n)) \<Longrightarrow> \<not> is_Str (agg_mean K vs)"
  by (simp add: agg_mean_def Let_def)

lemma mean_data_columns:
  assumes "mean_data K fr = Inr md" and "\<And>s n. \<not> is_Str (float_div K s n)"
  shows "columns md = [''Time_h'', ''mean'', ''std'']"
    and "\<not> list_ex is_Str (column md ''mean'')"
  using assms(1) agg_mean_not_Str[OF assms(2)]
  by (auto simp: mean_data_def column_def field_def cell_at_def list_ex_iff
      split: sum.splits if_splits)

lemma mean_nonzero_result:
  assumes "mean_data K fr = Inr md" and "\<And>s n. \<not> is_Str (float_div K s n)"
  shows "mean_nonzero md = Inr (positive_means md)"
proof -
  have "has_column md ''mean''"
    using mean_data_columns(1)[OF assms(1) assms(2)] by (simp add: has_column_def)
  then have "getitem md ''mean'' = Inr (map (field md ''mean'') (rows md))"
    by (rule getitem_field)
  moreover have "\<not> list_ex is_Str (column md ''mean'')"
    by (rule mean_data_columns(2)[OF assms(1) assms(2)])
  then have "gt_zero (map (field md ''mean'') (rows md))
             = Inr (map (\<lambda>p. positive (field md ''mean'' p)) (rows md))"
    by (simp add: gt_zero_def column_def)
  ultimately show ?thesis
    by (simp add: mean_nonzero_def select_map positive_means_def)
qed

text \<open>
  On a valid dataset, read from a file whose lines fit its header, the script runs to
  its end (a float64 quotient is a number, an infinity or NaN, never a string). Its
  three linear charts of individual profiles draw the same lines, one per subject
  series; the semi-logarithmic chart draws the positive part of each series; and the
  charts of the mean draw the aggregate table, the semi-logarithmic one its rows with a
  positive mean.
\<close>

lemma script_valid:
  assumes "valid_dataset csv" and "well_formed_file csv"
    and "\<And>s n. \<not> is_Str (float_div K s n)"
  shows "\<exists>series md hp.
           subject_series csv = Inr series \<and> mean_data K csv = Inr md
           \<and> script K csv start
               = (Inr (),
                  \<lparr>heap = csv # hp,
                   calls = map (\<lambda>(s, sd). line_of sd) series
                           @ [Savefig ''individual_concentration_time.png'']
                           @ map (\<lambda>(s, sd). line_of sd) series
                           @ [Savefig ''spaghetti_linear.png'']
                           @ map (\<lambda>(s, sd). semilog_line_of (positive_rows sd)) series
                           @ [Savefig ''spaghetti_semilog.png'',
                              bars_of md, Savefig ''mean_concentration_time.png'',
                              bars_of (positive_means md),
                              Savefig ''mean_concentration_time_semilog.png'']
                           @ map (\<lambda>(s, sd). line_of sd) series
                           @ [bars_of md, Savefig ''combined_concentration_time.png'']\<rparr>)"
proof -
  let ?ks = "unique (map (subject_id csv) (rows csv))"
  let ?series = "map (\<lambda>s. (s, rows_of_subject csv s)) ?ks"
  have series: "subject_series csv = Inr ?series"
    by (simp add: subject_series_valid[OF assms(1)] rows_of_subject_def)
  obtain md where md: "mean_data K csv = Inr md"
    using mean_data_valid[OF assms(1)] by simp
  have ids: "getitem csv ''Subject_ID'' = Inr (map (subject_id csv) (rows csv))"
    using assms(1) by (simp add: getitem_field valid_dataset_def subject_id_def[abs_def])
  note cols = mean_data_columns(1)[OF md assms(3)]
  have cols': "columns (positive_means md) = [''Time_h'', ''mean'', ''std'']"
    using cols by (simp add: positive_means_def)
  have "script K csv start
        = (Inr (),
           \<lparr>heap = csv # (map (rows_of_subject csv) ?ks @ map (rows_of_subject csv) ?ks
                           @ concat (map (\<lambda>s. [rows_of_subject csv s,
                                                positive_rows (rows_of_subject csv s)]) ?ks)
                           @ [md, positive_means md] @ map (rows_of_subject csv) ?ks),
            calls = map (\<lambda>(s, sd). line_of sd) ?series
                    @ [Savefig ''individual_concentration_time.png'']
                    @ map (\<lambda>(s, sd). line_of sd) ?series
                    @ [Savefig ''spaghetti_linear.png'']
                    @ map (\<lambda>(s, sd). semilog_line_of (positive_rows sd)) ?series
                    @ [Savefig ''spaghetti_semilog.png'',
                       bars_of md, Savefig ''mean_concentration_time.png'',
                       bars_of (positive_means md),
                       Savefig ''mean_concentration_time_semilog.png'']
                    @ map (\<lambda>(s, sd). line_of sd) ?series
                    @ [bars_of md, Savefig ''combined_concentration_time.png'']\<rparr>)"
    by (simp add: script_def read_csv_well_formed[OF assms(2)] charts_def bind_def
        getitem_at_result ids for_each_plot_valid[OF _ _ assms(1)]
        for_each_semilogy_valid[OF _ _ assms(1)] emit_def derive_result md
        mean_nonzero_result[OF md assms(3)] errorbar_result cols cols' nth_append comp_def)
  with series md show ?thesis
    by blast
qed

end
